theory Spec2Isabelle
  imports Main
begin

section \<open>The grievance portal server: data model\<close>

text \<open>
  The server is an Express application over two Mongoose models, \<open>User\<close> and
  \<open>Complaint\<close>. Every schema path is optional, so a document is a record whose
  fields are options: \<open>None\<close> is an absent path. A request body is seen after Mongoose
  has cast it against the schema (strict mode drops unknown paths), so it has the same
  type as a document: the paths it carries are the \<open>Some\<close> fields. Operator keys
  (\<open>$unset\<close>, \<open>$push\<close>), explicit \<open>null\<close>s and values that do not cast are
  outside this type. The field \<open>id\<close> of the two schemas is written \<open>user_id\<close> and
  \<open>complaint_id\<close>.
\<close>

text \<open>Entries of the \<open>Array\<close> paths \<open>history\<close> and \<open>chat\<close> are mixed values.\<close>

datatype json =
    JNull
  | JBool bool
  | JNum int
  | JStr string
  | JArr "json list"
  | JObj "(string \<times> json) list"

record user =
  user_id :: "string option"
  role :: "string option"
  name :: "string option"
  email :: "string option"
  pass :: "string option"
  dept :: "string option"
  year :: "string option"
  enroll :: "string option"
  isAdmin :: "bool option"

record complaint =
  complaint_id :: "string option"
  studentId :: "string option"
  studentName :: "string option"
  category :: "string option"
  title :: "string option"
  description :: "string option"
  attachment :: "string option"
  isAnon :: "bool option"
  status :: "string option"
  assignedTo :: "string option"
  history :: "json list option"
  chat :: "json list option"
  timestamp :: "string option"

text \<open>The object literal \<open>{}\<close> of each shape.\<close>

definition empty_user :: user where
  "empty_user = \<lparr>user_id = None, role = None, name = None, email = None, pass = None,
     dept = None, year = None, enroll = None, isAdmin = None\<rparr>"

definition empty_complaint :: complaint where
  "empty_complaint = \<lparr>complaint_id = None, studentId = None, studentName = None,
     category = None, title = None, description = None, attachment = None, isAnon = None,
     status = None, assignedTo = None, history = None, chat = None, timestamp = None\<rparr>"

text \<open>
  The two collections, each in its natural (insertion) order. The position of a document
  in its collection stands for its \<open>_id\<close>: handlers run one at a time, and no
  handler that names an \<open>_id\<close> inserts or deletes.
\<close>

record store =
  users :: "user list"
  complaints :: "complaint list"

definition empty_store :: store where
  "empty_store = \<lparr>users = [], complaints = []\<rparr>"

section \<open>The document store\<close>

text \<open>
  \<open>email: { type: String, unique: true }\<close> and \<open>id: { type: String, unique: true }\<close>
  declare unique indexes. The index is not sparse: an absent key is indexed as null, so
  two documents without the key collide as well. A write that would give two documents
  the same key fails with E11000; this is the only store fault of the model (the store
  is reachable and the indexes are built).
\<close>

datatype store_fault = DuplicateKey

text \<open>\<open>Model.countDocuments()\<close>\<close>

definition countDocuments :: "'d list \<Rightarrow> nat" where
  "countDocuments coll = length coll"

text \<open>\<open>doc.save()\<close> of a new document, under the unique index on \<open>key\<close>.\<close>

definition save :: "('d \<Rightarrow> 'k) \<Rightarrow> 'd \<Rightarrow> 'd list \<Rightarrow> store_fault + 'd list" where
  "save key d coll =
     (if key d \<in> set (map key coll) then Inl DuplicateKey else Inr (coll @ [d]))"

text \<open>\<open>Model.insertMany(docs)\<close>, ordered: it stops at the first fault.\<close>

fun insertMany :: "('d \<Rightarrow> 'k) \<Rightarrow> 'd list \<Rightarrow> 'd list \<Rightarrow> store_fault + 'd list" where
  "insertMany key [] coll = Inr coll"
| "insertMany key (d # ds) coll =
     (case save key d coll of Inl e \<Rightarrow> Inl e | Inr coll' \<Rightarrow> insertMany key ds coll')"

text \<open>
  What a filter may carry for a \<open>String\<close> path, after the cast of the filter: a
  JSON string asks for equality; a JSON array of strings is cast to \<open>$in\<close>; the
  operator object \<open>{ "$ne": v }\<close>, with \<open>v\<close> a string or null, passes as it is.
  \<open>$ne: null\<close> matches every document that has the path. Other operator objects
  are conditions of the same kind and are not in this type.
\<close>

datatype filter_value =
    FString string
  | FArray "string list"
  | FNe "string option"

fun matches :: "filter_value \<Rightarrow> string option \<Rightarrow> bool" where
  "matches (FString v) f = (f = Some v)"
| "matches (FArray vs) f = (f \<in> set (map Some vs))"
| "matches (FNe v) f = (f \<noteq> v)"

text \<open>\<open>Model.findOne(filter)\<close>: the first match in natural order, or null.\<close>

definition findOne :: "('d \<Rightarrow> bool) \<Rightarrow> 'd list \<Rightarrow> 'd option" where
  "findOne P coll = List.find P coll"

text \<open>Replace, or remove, the first document that matches.\<close>

fun replaceFirst :: "('d \<Rightarrow> bool) \<Rightarrow> 'd \<Rightarrow> 'd list \<Rightarrow> 'd list" where
  "replaceFirst P d' [] = []"
| "replaceFirst P d' (d # ds) = (if P d then d' # ds else d # replaceFirst P d' ds)"

fun removeFirst :: "('d \<Rightarrow> bool) \<Rightarrow> 'd list \<Rightarrow> 'd list" where
  "removeFirst P [] = []"
| "removeFirst P (d # ds) = (if P d then ds else d # removeFirst P ds)"

text \<open>
  \<open>Model.findOneAndUpdate(filter, update)\<close> with a plain object as update: Mongoose
  wraps it in \<open>$set\<close>, here the function \<open>upd\<close>. No match is no write (no upsert).
  The write fails when it moves the document onto a key that the index already holds.
\<close>

definition findOneAndUpdate ::
  "('d \<Rightarrow> 'k) \<Rightarrow> ('d \<Rightarrow> bool) \<Rightarrow> ('d \<Rightarrow> 'd) \<Rightarrow> 'd list \<Rightarrow> store_fault + 'd list" where
  "findOneAndUpdate key P upd coll =
     (case findOne P coll of
        None \<Rightarrow> Inr coll
      | Some d \<Rightarrow>
          if key (upd d) \<noteq> key d \<and> key (upd d) \<in> set (map key coll) then Inl DuplicateKey
          else Inr (replaceFirst P (upd d) coll))"

text \<open>\<open>Model.findOneAndDelete(filter)\<close>\<close>

definition findOneAndDelete :: "('d \<Rightarrow> bool) \<Rightarrow> 'd list \<Rightarrow> 'd list" where
  "findOneAndDelete P coll = removeFirst P coll"

text \<open>
  One \<open>updateOne\<close> of a bulk write, filtered by \<open>_id\<close> (the position); an \<open>_id\<close>
  that matches nothing writes nothing.
\<close>

definition updateOne ::
  "('d \<Rightarrow> 'k) \<Rightarrow> nat \<Rightarrow> ('d \<Rightarrow> 'd) \<Rightarrow> 'd list \<Rightarrow> store_fault + 'd list" where
  "updateOne key i upd coll =
     (if i < length coll then
        (if key (upd (coll ! i)) \<noteq> key (coll ! i) \<and> key (upd (coll ! i)) \<in> set (map key coll)
         then Inl DuplicateKey
         else Inr (coll[i := upd (coll ! i)]))
      else Inr coll)"

text \<open>\<open>Model.bulkWrite(ops)\<close>, ordered.\<close>

fun bulkWrite ::
  "('d \<Rightarrow> 'k) \<Rightarrow> ('p \<Rightarrow> 'd \<Rightarrow> 'd) \<Rightarrow> (nat \<times> 'p) list \<Rightarrow> 'd list \<Rightarrow> store_fault + 'd list" where
  "bulkWrite key setp [] coll = Inr coll"
| "bulkWrite key setp ((i, p) # ops) coll =
     (case updateOne key i (setp p) coll of
        Inl e \<Rightarrow> Inl e
      | Inr coll' \<Rightarrow> bulkWrite key setp ops coll')"

section \<open>Documents\<close>

text \<open>\<open>$set\<close> of one path: a path the update carries replaces the stored one.\<close>

definition set_path :: "'a option \<Rightarrow> 'a option \<Rightarrow> 'a option" where
  "set_path new old = (case new of None \<Rightarrow> old | Some v \<Rightarrow> Some v)"

definition set_user :: "user \<Rightarrow> user \<Rightarrow> user" where
  "set_user p d =
     \<lparr>user_id = set_path (user_id p) (user_id d),
      role = set_path (role p) (role d),
      name = set_path (name p) (name d),
      email = set_path (email p) (email d),
      pass = set_path (pass p) (pass d),
      dept = set_path (dept p) (dept d),
      year = set_path (year p) (year d),
      enroll = set_path (enroll p) (enroll d),
      isAdmin = set_path (isAdmin p) (isAdmin d)\<rparr>"

definition set_complaint :: "complaint \<Rightarrow> complaint \<Rightarrow> complaint" where
  "set_complaint p d =
     \<lparr>complaint_id = set_path (complaint_id p) (complaint_id d),
      studentId = set_path (studentId p) (studentId d),
      studentName = set_path (studentName p) (studentName d),
      category = set_path (category p) (category d),
      title = set_path (title p) (title d),
      description = set_path (description p) (description d),
      attachment = set_path (attachment p) (attachment d),
      isAnon = set_path (isAnon p) (isAnon d),
      status = set_path (status p) (status d),
      assignedTo = set_path (assignedTo p) (assignedTo d),
      history = set_path (history p) (history d),
      chat = set_path (chat p) (chat d),
      timestamp = set_path (timestamp p) (timestamp d)\<rparr>"

text \<open>
  \<open>new User(obj)\<close> and \<open>new Complaint(obj)\<close> apply the schema defaults:
  \<open>isAdmin\<close> defaults to false, and an \<open>Array\<close> path to the empty array.
\<close>

definition new_User :: "user \<Rightarrow> user" where
  "new_User obj = obj\<lparr>isAdmin := set_path (isAdmin obj) (Some False)\<rparr>"

definition new_Complaint :: "complaint \<Rightarrow> complaint" where
  "new_Complaint obj =
     obj\<lparr>history := set_path (history obj) (Some []), chat := set_path (chat obj) (Some [])\<rparr>"

section \<open>Responses\<close>

text \<open>
  A handler answers with a JSON payload or with an error status:
  \<open>Unauthorized\<close> is 401 \<open>Invalid credentials\<close>, \<open>DuplicateEmailError\<close> is 400
  \<open>Email likely already exists\<close>, \<open>PersistenceError\<close> is 500 with the fault's message.
\<close>

datatype error = Unauthorized | DuplicateEmailError | PersistenceError store_fault

datatype payload =
    Success
  | SuccessId string
  | SuccessCount nat
  | UserDoc user
  | UserList "user list"
  | ComplaintList "complaint list"

type_synonym response = "error + payload"

section \<open>Number.prototype.toString\<close>

text \<open>The decimal digits of a count, most significant first, with no leading zero.\<close>

definition digit_char :: "nat \<Rightarrow> char" where
  "digit_char d =
     (if d = 0 then CHR ''0'' else if d = 1 then CHR ''1'' else if d = 2 then CHR ''2''
      else if d = 3 then CHR ''3'' else if d = 4 then CHR ''4'' else if d = 5 then CHR ''5''
      else if d = 6 then CHR ''6'' else if d = 7 then CHR ''7'' else if d = 8 then CHR ''8''
      else CHR ''9'')"

function toString :: "nat \<Rightarrow> string" where
  "toString n =
     (if n < 10 then [digit_char n] else toString (n div 10) @ [digit_char (n mod 10)])"
  by pat_completeness auto
termination
  by (relation "measure (\<lambda>n. n)") auto

declare toString.simps [simp del]

section \<open>Seed data\<close>

definition demoUsers :: "user list" where
  "demoUsers =
     [empty_user\<lparr>role := Some ''teacher'', name := Some ''Dr. Smith'',
        email := Some ''teacher1@example.com'', pass := Some ''pass123'',
        user_id := Some ''T01'', dept := Some ''CSE''\<rparr>,
      empty_user\<lparr>role := Some ''teacher'', name := Some ''Prof. Jones'',
        email := Some ''teacher2@example.com'', pass := Some ''pass123'',
        user_id := Some ''T02'', dept := Some ''CSE''\<rparr>,
      empty_user\<lparr>role := Some ''hod'', name := Some ''Head of Department'',
        email := Some ''ecedepartment100@gmail.com'', pass := Some ''Secure@123'',
        user_id := Some ''H01'', dept := Some ''CSE'', isAdmin := Some True\<rparr>]"

text \<open>
  \<open>seedUsers\<close> runs once the connection is open. It has no \<open>try\<close>: a fault of
  \<open>insertMany\<close> would reject its promise, so the fault is its result here.
\<close>

definition seedUsers :: "store \<Rightarrow> store_fault + store" where
  "seedUsers s =
     (let count = countDocuments (users s) in
      if count = 0 then
        (case insertMany email (map new_User demoUsers) (users s) of
           Inl e \<Rightarrow> Inl e
         | Inr us \<Rightarrow> Inr (s\<lparr>users := us\<rparr>))
      else Inr s)"

section \<open>Routes\<close>

subsection \<open>Auth and users\<close>

text \<open>
  \<open>POST /api/login\<close> takes \<open>email\<close> and \<open>pass\<close> from the body as they are and
  hands them to \<open>User.findOne({ email, pass })\<close>; nothing checks that they are
  strings.
\<close>

definition login :: "filter_value \<Rightarrow> filter_value \<Rightarrow> store \<Rightarrow> response \<times> store" where
  "login e p s =
     (case findOne (\<lambda>u. matches e (email u) \<and> matches p (pass u)) (users s) of
        Some u \<Rightarrow> (Inr (UserDoc u), s)
      | None \<Rightarrow> (Inl Unauthorized, s))"

text \<open>\<open>POST /api/register\<close>: every fault of \<open>save\<close> is answered with 400.\<close>

definition register :: "user \<Rightarrow> store \<Rightarrow> response \<times> store" where
  "register body s =
     (case save email (new_User body) (users s) of
        Inr us \<Rightarrow> (Inr Success, s\<lparr>users := us\<rparr>)
      | Inl e \<Rightarrow> (Inl DuplicateEmailError, s))"

text \<open>\<open>GET /api/users\<close>\<close>

definition list_users :: "store \<Rightarrow> response \<times> store" where
  "list_users s = (Inr (UserList (users s)), s)"

text \<open>\<open>PUT /api/users/:id\<close>\<close>

definition update_user :: "string \<Rightarrow> user \<Rightarrow> store \<Rightarrow> response \<times> store" where
  "update_user i body s =
     (case findOneAndUpdate email (\<lambda>u. user_id u = Some i) (set_user body) (users s) of
        Inr us \<Rightarrow> (Inr Success, s\<lparr>users := us\<rparr>)
      | Inl e \<Rightarrow> (Inl (PersistenceError e), s))"

text \<open>\<open>DELETE /api/users/:email\<close>\<close>

definition delete_user :: "string \<Rightarrow> store \<Rightarrow> response \<times> store" where
  "delete_user e s =
     (Inr Success, s\<lparr>users := findOneAndDelete (\<lambda>u. email u = Some e) (users s)\<rparr>)"

subsection \<open>Complaints\<close>

text \<open>\<open>GET /api/complaints\<close>\<close>

definition list_complaints :: "store \<Rightarrow> response \<times> store" where
  "list_complaints s = (Inr (ComplaintList (complaints s)), s)"

text \<open>
  \<open>POST /api/complaints\<close>: the spread \<open>{ ...req.body, id: newId }\<close> overwrites
  whatever \<open>id\<close> the body carries.
\<close>

definition file_complaint :: "complaint \<Rightarrow> store \<Rightarrow> response \<times> store" where
  "file_complaint body s =
     (let count = countDocuments (complaints s);
          newId = toString (count + 1);
          nc = new_Complaint (body\<lparr>complaint_id := Some newId\<rparr>)
      in case save complaint_id nc (complaints s) of
           Inr cs \<Rightarrow> (Inr (SuccessId newId), s\<lparr>complaints := cs\<rparr>)
         | Inl e \<Rightarrow> (Inl (PersistenceError e), s))"

text \<open>\<open>PUT /api/complaints/:id\<close>\<close>

definition update_complaint :: "string \<Rightarrow> complaint \<Rightarrow> store \<Rightarrow> response \<times> store" where
  "update_complaint i body s =
     (case findOneAndUpdate complaint_id (\<lambda>c. complaint_id c = Some i) (set_complaint body)
             (complaints s) of
        Inr cs \<Rightarrow> (Inr Success, s\<lparr>complaints := cs\<rparr>)
      | Inl e \<Rightarrow> (Inl (PersistenceError e), s))"

text \<open>\<open>DELETE /api/complaints/:id\<close>\<close>

definition delete_complaint :: "string \<Rightarrow> store \<Rightarrow> response \<times> store" where
  "delete_complaint i s =
     (Inr Success,
      s\<lparr>complaints := findOneAndDelete (\<lambda>c. complaint_id c = Some i) (complaints s)\<rparr>)"

subsection \<open>Promotion\<close>

text \<open>The \<open>if\<close> chain of \<open>POST /api/users/promote-all\<close> on \<open>student.year\<close>.\<close>

definition newYear :: "string option \<Rightarrow> string option" where
  "newYear y =
     (if y = Some ''1'' then Some ''2''
      else if y = Some ''2'' then Some ''3''
      else if y = Some ''3'' then Some ''4''
      else if y = Some ''4'' then Some ''Graduated''
      else y)"

text \<open>
  The students are the users with role \<open>student\<close>, each with its \<open>_id\<close>. The
  \<open>map\<close> gives an \<open>updateOne\<close> with update \<open>{ year: newYear }\<close> or null, and the
  \<open>filter\<close> drops the nulls.
\<close>

definition bulkOps :: "user list \<Rightarrow> (nat \<times> user) list" where
  "bulkOps us =
     List.map_filter
       (\<lambda>(i, student).
          if newYear (year student) \<noteq> year student
          then Some (i, empty_user\<lparr>year := newYear (year student)\<rparr>)
          else None)
       (filter (\<lambda>(i, u). role u = Some ''student'') (enumerate 0 us))"

definition promote_all :: "store \<Rightarrow> response \<times> store" where
  "promote_all s =
     (let ops = bulkOps (users s) in
      if length ops > 0 then
        (case bulkWrite email set_user ops (users s) of
           Inr us \<Rightarrow> (Inr (SuccessCount (length ops)), s\<lparr>users := us\<rparr>)
         | Inl e \<Rightarrow> (Inl (PersistenceError e), s))
      else (Inr (SuccessCount (length ops)), s))"

subsection \<open>Sequences of requests\<close>

datatype request =
    Login filter_value filter_value
  | Register user
  | ListUsers
  | UpdateUser string user
  | DeleteUser string
  | PromoteAll
  | ListComplaints
  | FileComplaint complaint
  | UpdateComplaint string complaint
  | DeleteComplaint string

fun handle :: "request \<Rightarrow> store \<Rightarrow> response \<times> store" where
  "handle (Login e p) s = login e p s"
| "handle (Register body) s = register body s"
| "handle ListUsers s = list_users s"
| "handle (UpdateUser i body) s = update_user i body s"
| "handle (DeleteUser e) s = delete_user e s"
| "handle PromoteAll s = promote_all s"
| "handle ListComplaints s = list_complaints s"
| "handle (FileComplaint body) s = file_complaint body s"
| "handle (UpdateComplaint i body) s = update_complaint i body s"
| "handle (DeleteComplaint i) s = delete_complaint i s"

text \<open>Requests are served one after the other; the responses come back in order.\<close>

fun serve :: "request list \<Rightarrow> store \<Rightarrow> response list \<times> store" where
  "serve [] s = ([], s)"
| "serve (r # rs) s =
     (let (a, s') = handle r s; (as, s'') = serve rs s' in (a # as, s''))"

subsection \<open>The second copy of the server\<close>

text \<open>
  \<open>src/server.js\<close> is a second copy of the same server, without the promotion and
  without the deletion of complaints. Its \<open>POST /api/complaints\<close> stores the body as
  sent, with the \<open>id\<close> the caller chose.
\<close>

definition file_complaint_server_js :: "complaint \<Rightarrow> store \<Rightarrow> response \<times> store" where
  "file_complaint_server_js body s =
     (case save complaint_id (new_Complaint body) (complaints s) of
        Inr cs \<Rightarrow> (Inr Success, s\<lparr>complaints := cs\<rparr>)
      | Inl e \<Rightarrow> (Inl (PersistenceError e), s))"

section \<open>Auxiliary definitions\<close>

text \<open>
  The progression as the specification words it, for comparison with the bulk write:
  a student moves to the next year, every other user stays as it is.
\<close>

definition promoted :: "user \<Rightarrow> user" where
  "promoted u = (if role u = Some ''student'' then u\<lparr>year := newYear (year u)\<rparr> else u)"

text \<open>\<open>bulkOps\<close> for a tail of the collection that starts at position \<open>n\<close>.\<close>

definition ops_from :: "nat \<Rightarrow> user list \<Rightarrow> (nat \<times> user) list" where
  "ops_from n us =
     List.map_filter
       (\<lambda>(i, student).
          if newYear (year student) \<noteq> year student
          then Some (i, empty_user\<lparr>year := newYear (year student)\<rparr>)
          else None)
       (filter (\<lambda>(i, u). role u = Some ''student'') (enumerate n us))"

text \<open>
  The string form of a number, as the specification means it, is its decimal numeral.
  The value of a digit is its position among the ten digits, and \<open>decimal_value\<close>
  reads a numeral back, most significant digit first.
\<close>

definition digit_value :: "char \<Rightarrow> nat" where
  "digit_value c = length (takeWhile (\<lambda>d. d \<noteq> c) ''0123456789'')"

definition decimal_value :: "string \<Rightarrow> nat" where
  "decimal_value cs = foldl (\<lambda>acc c. 10 * acc + digit_value c) 0 cs"

text \<open>The history and chat entries a complaint embeds, and those of a collection.\<close>

definition entries :: "complaint \<Rightarrow> json list" where
  "entries c =
     (case history c of None \<Rightarrow> [] | Some h \<Rightarrow> h) @ (case chat c of None \<Rightarrow> [] | Some m \<Rightarrow> m)"

definition stored_entries :: "complaint list \<Rightarrow> json list" where
  "stored_entries cs = concat (map entries cs)"

text \<open>Sample documents.\<close>

definition complaint1 :: complaint where
  "complaint1 = empty_complaint\<lparr>complaint_id := Some ''1'', title := Some ''Noise'',
     status := Some ''Pending'', history := Some [JStr ''filed''],
     chat := Some [JStr ''hello'']\<rparr>"

definition complaint2 :: complaint where
  "complaint2 = empty_complaint\<lparr>complaint_id := Some ''2'', title := Some ''Fan'',
     status := Some ''Pending'', history := Some [], chat := Some []\<rparr>"

definition sample_student :: "string \<Rightarrow> string \<Rightarrow> user" where
  "sample_student e y = empty_user\<lparr>role := Some ''student'', email := Some e, pass := Some ''pw'',
     year := Some y, isAdmin := Some False\<rparr>"

definition sample_teacher :: user where
  "sample_teacher = empty_user\<lparr>role := Some ''teacher'', email := Some ''t@x.com'',
     pass := Some ''pass123'', user_id := Some ''T01'', isAdmin := Some False\<rparr>"

section \<open>Facts about the store and the digits\<close>

lemma toString_digit: "n < 10 \<Longrightarrow> toString n = [digit_char n]"
  by (simp add: toString.simps)

lemma toString_step:
  "\<not> n < 10 \<Longrightarrow> toString n = toString (n div 10) @ [digit_char (n mod 10)]"
  by (subst toString.simps) simp

lemma toString_1: "toString (Suc 0) = ''1''"
  by (simp add: toString_digit digit_char_def)

lemma toString_2: "toString (Suc (Suc 0)) = ''2''"
  by (simp add: toString_digit digit_char_def)


lemma find_none: "\<forall>x\<in>set xs. \<not> P x \<Longrightarrow> List.find P xs = None"
  by (induction xs) auto

lemma replaceFirst_first:
  "\<forall>x\<in>set pre. \<not> P x \<Longrightarrow> P c \<Longrightarrow> replaceFirst P d (pre @ c # post) = pre @ d # post"
  by (induction pre) auto

lemma removeFirst_first:
  "\<forall>x\<in>set pre. \<not> P x \<Longrightarrow> P c \<Longrightarrow> removeFirst P (pre @ c # post) = pre @ post"
  by (induction pre) auto

lemma removeFirst_none: "\<forall>x\<in>set xs. \<not> P x \<Longrightarrow> removeFirst P xs = xs"
  by (induction xs) auto

lemma find_Some_split:
  "List.find P xs = Some d \<Longrightarrow>
   \<exists>pre post. xs = pre @ d # post \<and> (\<forall>x\<in>set pre. \<not> P x) \<and> P d"
proof (induction xs)
  case Nil
  then show ?case by simp
next
  case (Cons x xs)
  show ?case
  proof (cases "P x")
    case True
    with Cons.prems have "x = d" by simp
    with True have "x # xs = [] @ d # xs \<and> (\<forall>x\<in>set []. \<not> P x) \<and> P d" by simp
    then show ?thesis by blast
  next
    case False
    with Cons.prems have "List.find P xs = Some d" by simp
    from Cons.IH [OF this] obtain pre post
      where "xs = pre @ d # post" "\<forall>x\<in>set pre. \<not> P x" "P d"
      by blast
    with False have "x # xs = (x # pre) @ d # post \<and> (\<forall>y\<in>set (x # pre). \<not> P y) \<and> P d"
      by simp
    then show ?thesis by blast
  qed
qed

lemma distinct_key_eq:
  "distinct (map key xs) \<Longrightarrow> x \<in> set xs \<Longrightarrow> y \<in> set xs \<Longrightarrow> key x = key y \<Longrightarrow> x = y"
  by (simp add: distinct_map inj_on_def)

subsection \<open>Decimal strings are injective\<close>

lemma digit_char_inj: "a < 10 \<Longrightarrow> b < 10 \<Longrightarrow> digit_char a = digit_char b \<Longrightarrow> a = b"
  unfolding digit_char_def by (simp split: if_splits; arith)

lemma toString_nonempty: "toString n \<noteq> []"
  by (subst toString.simps) simp

lemma toString_inj: "toString m = toString n \<Longrightarrow> m = n"
proof (induction m arbitrary: n rule: toString.induct)
  case (1 m)
  show ?case
  proof (cases "m < 10")
    case True
    show ?thesis
    proof (cases "n < 10")
      case n: True
      with True "1.prems" show ?thesis
        by (simp add: toString_digit digit_char_inj)
    next
      case n: False
      with True "1.prems" toString_nonempty [of "n div 10"] show ?thesis
        by (simp add: toString_digit toString_step)
    qed
  next
    case False
    show ?thesis
    proof (cases "n < 10")
      case n: True
      with False "1.prems" toString_nonempty [of "m div 10"] show ?thesis
        by (simp add: toString_digit toString_step)
    next
      case n: False
      with False "1.prems" have e: "toString (m div 10) = toString (n div 10)"
        and d: "digit_char (m mod 10) = digit_char (n mod 10)"
        by (simp_all add: toString_step)
      from "1.IH" [OF False e] have q: "m div 10 = n div 10" .
      from d have r: "m mod 10 = n mod 10"
        by (intro digit_char_inj) simp_all
      from q r show ?thesis
        by (metis div_mult_mod_eq)
    qed
  qed
qed

subsection \<open>The decimal numeral of a number\<close>

lemma digit_value_digit_char: "d < 10 \<Longrightarrow> digit_value (digit_char d) = d"
  unfolding digit_char_def digit_value_def by (simp; arith)

lemma digit_char_is_digit: "digit_char d \<in> set ''0123456789''"
  by (simp add: digit_char_def)

lemma digit_char_not_zero: "0 < d \<Longrightarrow> digit_char d \<noteq> CHR ''0''"
  by (simp add: digit_char_def)

lemma decimal_value_snoc:
  "decimal_value (cs @ [c]) = 10 * decimal_value cs + digit_value c"
  by (simp add: decimal_value_def)

lemma decimal_value_toString: "decimal_value (toString n) = n"
proof (induction n rule: toString.induct)
  case (1 n)
  show ?case
  proof (cases "n < 10")
    case True
    then show ?thesis
      by (simp add: toString_digit decimal_value_def digit_value_digit_char)
  next
    case False
    from "1.IH" [OF False] have "decimal_value (toString (n div 10)) = n div 10" .
    with False show ?thesis
      by (simp add: toString_step decimal_value_snoc digit_value_digit_char)
  qed
qed

lemma toString_digits: "set (toString n) \<subseteq> set ''0123456789''"
proof (induction n rule: toString.induct)
  case (1 n)
  show ?case
  proof (cases "n < 10")
    case True
    then have e: "toString n = [digit_char n]"
      by (rule toString_digit)
    from digit_char_is_digit [of n] show ?thesis
      unfolding e by simp
  next
    case False
    have e: "toString n = toString (n div 10) @ [digit_char (n mod 10)]"
      using False by (rule toString_step)
    from "1.IH" [OF False] digit_char_is_digit [of "n mod 10"] show ?thesis
      unfolding e by simp
  qed
qed

lemma toString_no_leading_zero: "0 < n \<Longrightarrow> hd (toString n) \<noteq> CHR ''0''"
proof (induction n rule: toString.induct)
  case (1 n)
  show ?case
  proof (cases "n < 10")
    case True
    with "1.prems" show ?thesis
      by (simp add: toString_digit digit_char_not_zero)
  next
    case False
    then have "0 < n div 10" by simp
    from "1.IH" [OF False this] have "hd (toString (n div 10)) \<noteq> CHR ''0''" .
    with False toString_nonempty [of "n div 10"] show ?thesis
      by (simp add: toString_step)
  qed
qed

subsection \<open>Filing without deleting\<close>

lemma file_complaints_in_sequence:
  "map complaint_id (complaints s) = map (\<lambda>k. Some (toString k)) [1..<Suc n] \<Longrightarrow>
   fst (serve (map FileComplaint bodies) s) =
     map (\<lambda>k. Inr (SuccessId (toString k))) [Suc n..<Suc (n + length bodies)]
   \<and> map complaint_id (complaints (snd (serve (map FileComplaint bodies) s))) =
     map (\<lambda>k. Some (toString k)) [1..<Suc (n + length bodies)]"
proof (induction bodies arbitrary: s n)
  case Nil
  then show ?case by simp
next
  case (Cons b bodies)
  from Cons.prems have len: "length (complaints s) = n"
    by (metis length_map length_upt diff_Suc_1)
  have fresh: "Some (toString (Suc n)) \<notin> set (map complaint_id (complaints s))"
    using Cons.prems by (auto dest: toString_inj)
  let ?s' = "s\<lparr>complaints := complaints s @
      [new_Complaint (b\<lparr>complaint_id := Some (toString (Suc n))\<rparr>)]\<rparr>"
  have step: "file_complaint b s = (Inr (SuccessId (toString (Suc n))), ?s')"
    using fresh len
    by (simp add: file_complaint_def countDocuments_def save_def Let_def new_Complaint_def)
  have ids: "map complaint_id (complaints ?s') =
      map (\<lambda>k. Some (toString k)) [1..<Suc (Suc n)]"
    using Cons.prems by (simp add: new_Complaint_def)
  note ih = Cons.IH [OF ids]
  have u: "[Suc n..<Suc (n + length (b # bodies))] =
      Suc n # [Suc (Suc n)..<Suc (Suc n + length bodies)]"
    by (subst upt_conv_Cons) (simp_all del: upt_Suc)
  have f: "fst (serve (map FileComplaint (b # bodies)) s) =
      Inr (SuccessId (toString (Suc n))) # fst (serve (map FileComplaint bodies) ?s')"
    by (simp add: step split_beta)
  have g: "snd (serve (map FileComplaint (b # bodies)) s) =
      snd (serve (map FileComplaint bodies) ?s')"
    by (simp add: step split_beta)
  show ?case
    unfolding f g u using ih by (simp del: upt_Suc)
qed

subsection \<open>The bulk write of the promotion\<close>

lemma bulkOps_ops_from: "bulkOps us = ops_from 0 us"
  by (simp add: bulkOps_def ops_from_def)

lemma ops_from_Nil: "ops_from n [] = []"
  by (simp add: ops_from_def)

lemma ops_from_Cons:
  "ops_from n (u # us) =
     (if role u = Some ''student'' \<and> newYear (year u) \<noteq> year u
      then (n, empty_user\<lparr>year := newYear (year u)\<rparr>) # ops_from (Suc n) us
      else ops_from (Suc n) us)"
  by (simp add: ops_from_def)

lemma newYear_changed: "newYear y \<noteq> y \<Longrightarrow> newYear y \<noteq> None"
  by (auto simp: newYear_def split: if_splits)

lemma newYear_changes_iff:
  "newYear y \<noteq> y \<longleftrightarrow> y \<in> {Some ''1'', Some ''2'', Some ''3'', Some ''4''}"
  by (auto simp: newYear_def)

lemma set_user_year:
  "y \<noteq> None \<Longrightarrow> set_user (empty_user\<lparr>year := y\<rparr>) u = u\<lparr>year := y\<rparr>"
  by (auto simp: set_user_def empty_user_def set_path_def)

lemma promoted_unchanged:
  "\<not> (role u = Some ''student'' \<and> newYear (year u) \<noteq> year u) \<Longrightarrow> promoted u = u"
  by (auto simp: promoted_def)

lemma promoted_changes_iff:
  "promoted u \<noteq> u \<longleftrightarrow> role u = Some ''student'' \<and> newYear (year u) \<noteq> year u"
proof
  assume "promoted u \<noteq> u"
  then show "role u = Some ''student'' \<and> newYear (year u) \<noteq> year u"
    using promoted_unchanged by blast
next
  assume a: "role u = Some ''student'' \<and> newYear (year u) \<noteq> year u"
  then have "year (promoted u) = newYear (year u)"
    by (simp add: promoted_def)
  with a show "promoted u \<noteq> u" by auto
qed

lemma email_promoted: "email (promoted u) = email u"
  by (simp add: promoted_def)

lemma updateOne_year:
  "y \<noteq> None \<Longrightarrow>
   updateOne email (length pre) (set_user (empty_user\<lparr>year := y\<rparr>)) (pre @ u # rest) =
     Inr (pre @ u\<lparr>year := y\<rparr> # rest)"
  by (simp add: updateOne_def set_user_year)

lemma bulkWrite_ops_from:
  "bulkWrite email set_user (ops_from (length pre) rest) (pre @ rest) =
     Inr (pre @ map promoted rest)"
proof (induction rest arbitrary: pre)
  case Nil
  show ?case by (simp add: ops_from_Nil)
next
  case (Cons u rest)
  show ?case
  proof (cases "role u = Some ''student'' \<and> newYear (year u) \<noteq> year u")
    case True
    then have y: "newYear (year u) \<noteq> None"
      by (simp add: newYear_changed)
    have p: "promoted u = u\<lparr>year := newYear (year u)\<rparr>"
      using True by (simp add: promoted_def)
    have "bulkWrite email set_user (ops_from (length pre) (u # rest)) (pre @ u # rest) =
        bulkWrite email set_user (ops_from (length (pre @ [promoted u])) rest)
          ((pre @ [promoted u]) @ rest)"
      using True by (simp add: ops_from_Cons updateOne_year [OF y] p)
    also have "\<dots> = Inr ((pre @ [promoted u]) @ map promoted rest)"
      by (rule Cons.IH)
    finally show ?thesis by simp
  next
    case False
    then have p: "promoted u = u"
      by (rule promoted_unchanged)
    have "bulkWrite email set_user (ops_from (length pre) (u # rest)) (pre @ u # rest) =
        bulkWrite email set_user (ops_from (length (pre @ [u])) rest) ((pre @ [u]) @ rest)"
      using False by (auto simp: ops_from_Cons)
    also have "\<dots> = Inr ((pre @ [u]) @ map promoted rest)"
      by (rule Cons.IH)
    finally show ?thesis by (simp add: p)
  qed
qed

lemma length_ops_from:
  "length (ops_from n us) =
     length (filter (\<lambda>u. role u = Some ''student'' \<and> newYear (year u) \<noteq> year u) us)"
  by (induction us arbitrary: n) (simp_all add: ops_from_Nil ops_from_Cons)

lemma promote_all_eq:
  "promote_all s =
     (Inr (SuccessCount (length (filter (\<lambda>u. promoted u \<noteq> u) (users s)))),
      s\<lparr>users := map promoted (users s)\<rparr>)"
proof -
  have w: "bulkWrite email set_user (bulkOps (users s)) (users s) =
      Inr (map promoted (users s))"
    using bulkWrite_ops_from [of "[]" "users s"] by (simp add: bulkOps_ops_from)
  have n: "length (bulkOps (users s)) = length (filter (\<lambda>u. promoted u \<noteq> u) (users s))"
    by (simp add: bulkOps_ops_from length_ops_from promoted_changes_iff)
  have "promote_all s =
      (Inr (SuccessCount (length (bulkOps (users s)))), s\<lparr>users := map promoted (users s)\<rparr>)"
  proof (cases "bulkOps (users s) = []")
    case True
    with w have "map promoted (users s) = users s" by simp
    with True show ?thesis
      by (simp add: promote_all_def)
  next
    case False
    then show ?thesis
      by (simp add: promote_all_def Let_def w)
  qed
  then show ?thesis
    by (simp only: n)
qed

subsection \<open>The unique index on email is kept by every request\<close>

lemma save_distinct:
  "distinct (map key coll) \<Longrightarrow> save key d coll = Inr coll' \<Longrightarrow> distinct (map key coll')"
  by (auto simp: save_def split: if_splits)

lemma removeFirst_subset: "set (removeFirst P xs) \<subseteq> set xs"
  by (induction xs) auto

lemma removeFirst_distinct:
  "distinct (map key xs) \<Longrightarrow> distinct (map key (removeFirst P xs))"
proof (induction xs)
  case Nil
  then show ?case by simp
next
  case (Cons x xs)
  then have "key x \<notin> key ` set (removeFirst P xs)"
    using removeFirst_subset [of P xs] by auto
  with Cons show ?case by simp
qed

lemma findOneAndUpdate_distinct:
  assumes "distinct (map key coll)" and "findOneAndUpdate key P upd coll = Inr coll'"
  shows "distinct (map key coll')"
proof (cases "List.find P coll")
  case None
  with assms show ?thesis
    by (simp add: findOneAndUpdate_def findOne_def)
next
  case (Some d)
  from find_Some_split [OF Some] obtain pre post
    where c: "coll = pre @ d # post" and p: "\<forall>x\<in>set pre. \<not> P x" and d: "P d"
    by blast
  have r: "replaceFirst P (upd d) coll = pre @ upd d # post"
    unfolding c using p d by (rule replaceFirst_first)
  from assms(2) Some have ok: "key (upd d) = key d \<or> key (upd d) \<notin> set (map key coll)"
    and coll': "coll' = pre @ upd d # post"
    by (auto simp: findOneAndUpdate_def findOne_def r split: if_splits)
  from assms(1) have dd: "distinct (map key pre @ key d # map key post)"
    by (simp add: c)
  from ok show ?thesis
  proof
    assume "key (upd d) = key d"
    with dd show ?thesis by (simp add: coll')
  next
    assume "key (upd d) \<notin> set (map key coll)"
    then have "key (upd d) \<notin> set (map key pre)" "key (upd d) \<notin> set (map key post)"
      by (simp_all add: c)
    with dd show ?thesis by (simp add: coll')
  qed
qed

lemma handle_users_distinct:
  assumes "distinct (map email (users s))"
  shows "distinct (map email (users (snd (handle r s))))"
proof (cases r)
  case (Login e p)
  with assms show ?thesis by (simp add: login_def split: option.splits)
next
  case (Register body)
  show ?thesis
  proof (cases "save email (new_User body) (users s)")
    case (Inl e)
    with assms Register show ?thesis by (simp add: register_def)
  next
    case (Inr us)
    from save_distinct [OF assms Inr] Register Inr show ?thesis
      by (simp add: register_def)
  qed
next
  case ListUsers
  with assms show ?thesis by (simp add: list_users_def)
next
  case (UpdateUser i body)
  show ?thesis
  proof (cases "findOneAndUpdate email (\<lambda>u. user_id u = Some i) (set_user body) (users s)")
    case (Inl e)
    with assms UpdateUser show ?thesis by (simp add: update_user_def)
  next
    case (Inr us)
    from findOneAndUpdate_distinct [OF assms Inr] UpdateUser Inr show ?thesis
      by (simp add: update_user_def)
  qed
next
  case (DeleteUser e)
  with removeFirst_distinct [OF assms] show ?thesis
    by (simp add: delete_user_def findOneAndDelete_def)
next
  case PromoteAll
  with assms show ?thesis
    by (simp add: promote_all_eq comp_def email_promoted)
next
  case ListComplaints
  with assms show ?thesis by (simp add: list_complaints_def)
next
  case (FileComplaint body)
  with assms show ?thesis
    by (simp add: file_complaint_def Let_def split: sum.splits)
next
  case (UpdateComplaint i body)
  with assms show ?thesis
    by (simp add: update_complaint_def split: sum.splits)
next
  case (DeleteComplaint i)
  with assms show ?thesis by (simp add: delete_complaint_def)
qed

lemma serve_users_distinct:
  "distinct (map email (users s)) \<Longrightarrow> distinct (map email (users (snd (serve rs s))))"
proof (induction rs arbitrary: s)
  case Nil
  then show ?case by simp
next
  case (Cons r rs)
  from Cons.prems have "distinct (map email (users (snd (handle r s))))"
    by (rule handle_users_distinct)
  then have "distinct (map email (users (snd (serve rs (snd (handle r s))))))"
    by (rule Cons.IH)
  then show ?case by (simp add: split_beta)
qed

lemma length_filter_key_le1:
  "distinct (map key xs) \<Longrightarrow> length (filter (\<lambda>x. key x = k) xs) \<le> 1"
  by (induction xs) (auto simp: filter_empty_conv image_iff)

lemma seed_insert:
  "insertMany email (map new_User demoUsers) [] = Inr (map new_User demoUsers)"
  by (simp add: demoUsers_def new_User_def empty_user_def save_def set_path_def)

lemma seedUsers_users_distinct:
  "distinct (map email (users s)) \<Longrightarrow> seedUsers s = Inr s' \<Longrightarrow>
   distinct (map email (users s'))"
proof (cases "users s = []")
  case True
  assume "seedUsers s = Inr s'"
  with True have "users s' = map new_User demoUsers"
    by (auto simp: seedUsers_def countDocuments_def seed_insert)
  then show ?thesis
    by (simp add: demoUsers_def new_User_def empty_user_def)
next
  case False
  assume "distinct (map email (users s))" and "seedUsers s = Inr s'"
  with False show ?thesis
    by (simp add: seedUsers_def countDocuments_def)
qed

subsection \<open>The unique index on the complaint id is kept by every request\<close>

lemma handle_complaints_distinct:
  assumes "distinct (map complaint_id (complaints s))"
  shows "distinct (map complaint_id (complaints (snd (handle r s))))"
proof (cases r)
  case (Login e p)
  with assms show ?thesis by (simp add: login_def split: option.splits)
next
  case (Register body)
  with assms show ?thesis by (simp add: register_def split: sum.splits)
next
  case ListUsers
  with assms show ?thesis by (simp add: list_users_def)
next
  case (UpdateUser i body)
  with assms show ?thesis by (simp add: update_user_def split: sum.splits)
next
  case (DeleteUser e)
  with assms show ?thesis by (simp add: delete_user_def)
next
  case PromoteAll
  with assms show ?thesis by (simp add: promote_all_eq)
next
  case ListComplaints
  with assms show ?thesis by (simp add: list_complaints_def)
next
  case (FileComplaint body)
  let ?nc = "new_Complaint
    (body\<lparr>complaint_id := Some (toString (countDocuments (complaints s) + 1))\<rparr>)"
  show ?thesis
  proof (cases "save complaint_id ?nc (complaints s)")
    case (Inl e)
    with assms FileComplaint show ?thesis
      by (simp add: file_complaint_def Let_def)
  next
    case (Inr cs)
    from save_distinct [OF assms Inr] FileComplaint Inr show ?thesis
      by (simp add: file_complaint_def Let_def)
  qed
next
  case (UpdateComplaint i body)
  show ?thesis
  proof (cases "findOneAndUpdate complaint_id (\<lambda>c. complaint_id c = Some i)
      (set_complaint body) (complaints s)")
    case (Inl e)
    with assms UpdateComplaint show ?thesis by (simp add: update_complaint_def)
  next
    case (Inr cs)
    from findOneAndUpdate_distinct [OF assms Inr] UpdateComplaint Inr show ?thesis
      by (simp add: update_complaint_def)
  qed
next
  case (DeleteComplaint i)
  with removeFirst_distinct [OF assms] show ?thesis
    by (simp add: delete_complaint_def findOneAndDelete_def)
qed

lemma serve_complaints_distinct:
  "distinct (map complaint_id (complaints s)) \<Longrightarrow>
   distinct (map complaint_id (complaints (snd (serve rs s))))"
proof (induction rs arbitrary: s)
  case Nil
  then show ?case by simp
next
  case (Cons r rs)
  from Cons.prems have "distinct (map complaint_id (complaints (snd (handle r s))))"
    by (rule handle_complaints_distinct)
  then have "distinct (map complaint_id (complaints (snd (serve rs (snd (handle r s))))))"
    by (rule Cons.IH)
  then show ?case by (simp add: split_beta)
qed

subsection \<open>The two answers of the login\<close>

lemma login_found:
  "List.find (\<lambda>u. matches e (email u) \<and> matches p (pass u)) (users s) = Some v \<Longrightarrow>
   login e p s = (Inr (UserDoc v), s)"
  by (simp add: login_def findOne_def)

lemma login_not_found:
  "List.find (\<lambda>u. matches e (email u) \<and> matches p (pass u)) (users s) = None \<Longrightarrow>
   login e p s = (Inl Unauthorized, s)"
  by (simp add: login_def findOne_def)

section \<open>Filing a complaint\<close>

text \<open>
  C1 holds for one copy of the server and fails for the other. \<open>POST /api/complaints\<close>
  of \<open>src/server.js\<close> allocates nothing: a complaint sent with id \<open>999\<close> into the
  empty store is stored as \<open>999\<close>, a complaint sent without an id is stored without
  one, and the response carries no id. The handler of \<open>src/unnamed/part_000\<close>
  answers the same two bodies with id \<open>1\<close> and stores them as \<open>1\<close>.
\<close>

theorem file_complaint_server_js_allocates_nothing:
  "file_complaint_server_js
     (empty_complaint\<lparr>complaint_id := Some ''999'', title := Some ''Noise''\<rparr>) empty_store =
     (Inr Success,
      \<lparr>users = [],
       complaints = [new_Complaint
         (empty_complaint\<lparr>complaint_id := Some ''999'', title := Some ''Noise''\<rparr>)]\<rparr>)
   \<and> file_complaint_server_js (empty_complaint\<lparr>title := Some ''Noise''\<rparr>) empty_store =
     (Inr Success,
      \<lparr>users = [],
       complaints = [new_Complaint (empty_complaint\<lparr>title := Some ''Noise''\<rparr>)]\<rparr>)
   \<and> complaint_id (new_Complaint (empty_complaint\<lparr>title := Some ''Noise''\<rparr>)) = None
   \<and> file_complaint
     (empty_complaint\<lparr>complaint_id := Some ''999'', title := Some ''Noise''\<rparr>) empty_store =
     (Inr (SuccessId ''1''),
      \<lparr>users = [],
       complaints = [new_Complaint
         (empty_complaint\<lparr>complaint_id := Some ''1'', title := Some ''Noise''\<rparr>)]\<rparr>)
   \<and> file_complaint (empty_complaint\<lparr>title := Some ''Noise''\<rparr>) empty_store =
     (Inr (SuccessId ''1''),
      \<lparr>users = [],
       complaints = [new_Complaint
         (empty_complaint\<lparr>complaint_id := Some ''1'', title := Some ''Noise''\<rparr>)]\<rparr>)"
  by (simp add: file_complaint_server_js_def file_complaint_def countDocuments_def save_def
      new_Complaint_def Let_def empty_store_def empty_complaint_def toString_1)

text \<open>
  The handler of \<open>src/unnamed/part_000\<close>, for every store: the id of the new
  complaint is \<open>toString\<close> of the number of stored complaints plus one, and
  \<open>toString n\<close> is the decimal numeral of \<open>n\<close>: it reads back as \<open>n\<close>, it is
  made of digits, and it has no leading zero. The complaint is stored under that id
  unless a stored complaint already carries it, in which case \<open>save\<close> fails on the
  unique index and the handler answers 500. Two filings into the empty store are
  answered with ids \<open>1\<close> and \<open>2\<close>, and these are the ids stored.
\<close>

theorem file_complaint_allocates_id:
  "file_complaint body s =
     (if Some (toString (length (complaints s) + 1)) \<in> set (map complaint_id (complaints s))
      then (Inl (PersistenceError DuplicateKey), s)
      else (Inr (SuccessId (toString (length (complaints s) + 1))),
            s\<lparr>complaints := complaints s @
               [new_Complaint
                  (body\<lparr>complaint_id := Some (toString (length (complaints s) + 1))\<rparr>)]\<rparr>))
   \<and> decimal_value (toString n) = n
   \<and> set (toString n) \<subseteq> set ''0123456789''
   \<and> toString n \<noteq> []
   \<and> (0 < n \<longrightarrow> hd (toString n) \<noteq> CHR ''0'')
   \<and> fst (serve [FileComplaint b1, FileComplaint b2] empty_store) =
       [Inr (SuccessId ''1''), Inr (SuccessId ''2'')]
   \<and> map complaint_id
       (complaints (snd (serve [FileComplaint b1, FileComplaint b2] empty_store))) =
       [Some ''1'', Some ''2'']"
proof -
  have 1: "file_complaint body s =
     (if Some (toString (length (complaints s) + 1)) \<in> set (map complaint_id (complaints s))
      then (Inl (PersistenceError DuplicateKey), s)
      else (Inr (SuccessId (toString (length (complaints s) + 1))),
            s\<lparr>complaints := complaints s @
               [new_Complaint
                  (body\<lparr>complaint_id := Some (toString (length (complaints s) + 1))\<rparr>)]\<rparr>))"
    by (simp add: file_complaint_def countDocuments_def save_def new_Complaint_def Let_def)
  have 2: "0 < n \<longrightarrow> hd (toString n) \<noteq> CHR ''0''"
    by (simp add: toString_no_leading_zero)
  have 3: "fst (serve [FileComplaint b1, FileComplaint b2] empty_store) =
       [Inr (SuccessId ''1''), Inr (SuccessId ''2'')]"
    by (simp add: file_complaint_def countDocuments_def save_def new_Complaint_def Let_def
        empty_store_def toString_1 toString_2)
  have 4: "map complaint_id
       (complaints (snd (serve [FileComplaint b1, FileComplaint b2] empty_store))) =
       [Some ''1'', Some ''2'']"
    by (simp add: file_complaint_def countDocuments_def save_def new_Complaint_def Let_def
        empty_store_def toString_1 toString_2)
  show ?thesis
    by (intro conjI)
      (rule 1 decimal_value_toString toString_digits toString_nonempty 2 3 4)+
qed

theorem file_complaint_allocates_id_witness:
  "file_complaint (empty_complaint\<lparr>title := Some ''Noise''\<rparr>)
     \<lparr>users = [],
      complaints = [new_Complaint (empty_complaint\<lparr>complaint_id := Some ''1''\<rparr>)]\<rparr> =
   (Inr (SuccessId ''2''),
    \<lparr>users = [],
     complaints = [new_Complaint (empty_complaint\<lparr>complaint_id := Some ''1''\<rparr>),
       new_Complaint (empty_complaint\<lparr>title := Some ''Noise'', complaint_id := Some ''2''\<rparr>)]\<rparr>)
   \<and> decimal_value (toString 1234) = 1234
   \<and> hd (toString 1234) \<noteq> CHR ''0''"
  using file_complaint_allocates_id [where body = "empty_complaint\<lparr>title := Some ''Noise''\<rparr>"
      and s = "\<lparr>users = [],
        complaints = [new_Complaint (empty_complaint\<lparr>complaint_id := Some ''1''\<rparr>)]\<rparr>"
      and n = 1234]
  by (simp add: toString_2 new_Complaint_def empty_complaint_def)

text \<open>
  C10. Whatever \<open>id\<close> the body of \<open>POST /api/complaints\<close> carries, the handler does
  the same as for the body without it: when a complaint is stored, it is appended under
  the decimal string of the count plus one, which is also the id of the response, and
  the users are untouched; when the handler fails, nothing is stored.
\<close>

theorem file_complaint_ignores_caller_id:
  "file_complaint (body\<lparr>complaint_id := caller_id\<rparr>) s = file_complaint body s
   \<and> (file_complaint body s = (Inr r, s') \<longrightarrow>
        r = SuccessId (toString (length (complaints s) + 1))
        \<and> (\<exists>nc. complaints s' = complaints s @ [nc]
              \<and> complaint_id nc = Some (toString (length (complaints s) + 1)))
        \<and> users s' = users s)
   \<and> (file_complaint body s = (Inl e, s') \<longrightarrow> s' = s)"
  by (auto simp: file_complaint_def countDocuments_def save_def new_Complaint_def Let_def
      split: if_splits)

theorem file_complaint_ignores_caller_id_witness:
  "file_complaint (empty_complaint\<lparr>complaint_id := Some ''999''\<rparr>) empty_store =
     file_complaint empty_complaint empty_store
   \<and> map complaint_id (complaints (snd (file_complaint
        (empty_complaint\<lparr>complaint_id := Some ''999''\<rparr>) empty_store))) = [Some ''1'']
   \<and> file_complaint (empty_complaint\<lparr>complaint_id := Some ''999''\<rparr>)
        \<lparr>users = [], complaints = [complaint2]\<rparr> =
       (Inl (PersistenceError DuplicateKey), \<lparr>users = [], complaints = [complaint2]\<rparr>)"
  using file_complaint_ignores_caller_id [where body = empty_complaint
      and caller_id = "Some ''999''" and s = empty_store and r = "SuccessId ''1''"
      and s' = "snd (file_complaint empty_complaint empty_store)"]
    file_complaint_ignores_caller_id [where body = empty_complaint
      and caller_id = "Some ''999''" and s = "\<lparr>users = [], complaints = [complaint2]\<rparr>"
      and e = "PersistenceError DuplicateKey"
      and s' = "snd (file_complaint empty_complaint
                  \<lparr>users = [], complaints = [complaint2]\<rparr>)"]
  by (simp add: file_complaint_def countDocuments_def save_def new_Complaint_def Let_def
      empty_store_def complaint2_def empty_complaint_def toString_1 toString_2)

text \<open>
  C2, as stated, fails: the id is the count plus one, and the count goes down when a
  complaint is deleted. File two complaints, delete the one with id \<open>2\<close>, file a
  third: it is given id \<open>2\<close> again.
\<close>

theorem deleted_id_reused_counterexample:
  "fst (serve [FileComplaint empty_complaint, FileComplaint empty_complaint,
               DeleteComplaint ''2'', FileComplaint empty_complaint] empty_store) =
     [Inr (SuccessId ''1''), Inr (SuccessId ''2''), Inr Success, Inr (SuccessId ''2'')]
   \<and> map complaint_id (complaints (snd (serve
        [FileComplaint empty_complaint, FileComplaint empty_complaint,
         DeleteComplaint ''2''] empty_store))) = [Some ''1'']"
  by (simp add: file_complaint_def delete_complaint_def findOneAndDelete_def
      countDocuments_def save_def new_Complaint_def Let_def empty_store_def
      empty_complaint_def toString_1 toString_2)

text \<open>
  C2, amended. In every store, a complaint that is filed gets the decimal string of the
  count plus one, and no stored complaint carries that id (the unique index rejects the
  filing otherwise). From the empty store, filings with no deletion in between get the
  ids 1, 2, 3, ... in order, all different.
\<close>

theorem file_complaint_id_not_stored:
  "(file_complaint body s = (Inr (SuccessId x), s') \<longrightarrow>
      x = toString (length (complaints s) + 1)
      \<and> Some x \<notin> set (map complaint_id (complaints s)))
   \<and> fst (serve (map FileComplaint bodies) empty_store) =
       map (\<lambda>k. Inr (SuccessId (toString k))) [1..<Suc (length bodies)]
   \<and> distinct (map toString [1..<Suc (length bodies)])"
proof (intro conjI)
  show "file_complaint body s = (Inr (SuccessId x), s') \<longrightarrow>
      x = toString (length (complaints s) + 1)
      \<and> Some x \<notin> set (map complaint_id (complaints s))"
    by (auto simp: file_complaint_def countDocuments_def save_def new_Complaint_def Let_def
        split: if_splits)
next
  have "map complaint_id (complaints empty_store) =
      map (\<lambda>k. Some (toString k)) [1..<Suc 0]"
    by (simp add: empty_store_def)
  from file_complaints_in_sequence [OF this, of bodies]
  show "fst (serve (map FileComplaint bodies) empty_store) =
       map (\<lambda>k. Inr (SuccessId (toString k))) [1..<Suc (length bodies)]"
    by simp
next
  have "inj_on toString (set [1..<Suc (length bodies)])"
    by (rule inj_onI) (rule toString_inj)
  then show "distinct (map toString [1..<Suc (length bodies)])"
    by (simp add: distinct_map del: upt_Suc)
qed

theorem file_complaint_id_not_stored_witness:
  "file_complaint empty_complaint \<lparr>users = [], complaints = [complaint1]\<rparr> =
     (Inr (SuccessId ''2''),
      \<lparr>users = [], complaints = [complaint1,
         new_Complaint (empty_complaint\<lparr>complaint_id := Some ''2''\<rparr>)]\<rparr>)
   \<and> Some ''2'' \<notin> set (map complaint_id [complaint1])"
  using file_complaint_id_not_stored [where body = empty_complaint
      and s = "\<lparr>users = [], complaints = [complaint1]\<rparr>" and x = "''2''"
      and s' = "\<lparr>users = [], complaints = [complaint1,
         new_Complaint (empty_complaint\<lparr>complaint_id := Some ''2''\<rparr>)]\<rparr>"]
  by (simp add: file_complaint_def countDocuments_def save_def new_Complaint_def Let_def
      complaint1_def empty_complaint_def toString_2)

section \<open>Updating and deleting a complaint\<close>

text \<open>
  C7. \<open>PUT /api/complaints/:id\<close> with an id that no stored complaint carries
  answers \<open>{ success: true }\<close> and leaves the whole store as it was: nothing is
  created and nothing is changed.
\<close>

theorem update_complaint_missing_id:
  "Some i \<notin> set (map complaint_id (complaints s)) \<Longrightarrow>
   update_complaint i patch s = (Inr Success, s)"
proof -
  assume "Some i \<notin> set (map complaint_id (complaints s))"
  then have "\<forall>c\<in>set (complaints s). \<not> complaint_id c = Some i"
    by force
  then have "findOne (\<lambda>c. complaint_id c = Some i) (complaints s) = None"
    unfolding findOne_def by (rule find_none)
  then show ?thesis
    by (simp add: update_complaint_def findOneAndUpdate_def)
qed

theorem update_complaint_missing_id_witness:
  "update_complaint ''7'' (empty_complaint\<lparr>status := Some ''Resolved''\<rparr>)
     \<lparr>users = [], complaints = [complaint1]\<rparr> =
   (Inr Success, \<lparr>users = [], complaints = [complaint1]\<rparr>)"
  using update_complaint_missing_id [where i = "''7''"
      and s = "\<lparr>users = [], complaints = [complaint1]\<rparr>"
      and patch = "empty_complaint\<lparr>status := Some ''Resolved''\<rparr>"]
  by (simp add: complaint1_def empty_complaint_def)




text \<open>
  C9. \<open>DELETE /api/complaints/:id\<close> always answers \<open>{ success: true }\<close>. When no
  stored complaint carries the id, the store is unchanged. Otherwise the first complaint
  \<open>c\<close> with that id is removed as a whole: the complaints before and after it stay,
  and the embedded entries left in the collection are those of the complaints that
  stay, so the history and chat of \<open>c\<close> go with it. Under the unique index on
  \<open>id\<close>, no complaint with that id is left.
\<close>

theorem delete_complaint_removes:
  "(Some i \<notin> set (map complaint_id (complaints s)) \<longrightarrow>
      delete_complaint i s = (Inr Success, s))
   \<and> (complaints s = pre @ c # post \<and> complaint_id c = Some i
        \<and> (\<forall>x\<in>set pre. complaint_id x \<noteq> Some i) \<longrightarrow>
      delete_complaint i s = (Inr Success, s\<lparr>complaints := pre @ post\<rparr>)
      \<and> stored_entries (complaints s) = stored_entries pre @ entries c @ stored_entries post
      \<and> stored_entries (pre @ post) = stored_entries pre @ stored_entries post
      \<and> (distinct (map complaint_id (complaints s)) \<longrightarrow>
           Some i \<notin> set (map complaint_id (pre @ post)) \<and> c \<notin> set (pre @ post)))"
proof (intro conjI impI)
  assume "Some i \<notin> set (map complaint_id (complaints s))"
  then have "\<forall>c\<in>set (complaints s). \<not> complaint_id c = Some i"
    by force
  then have "removeFirst (\<lambda>c. complaint_id c = Some i) (complaints s) = complaints s"
    by (rule removeFirst_none)
  then show "delete_complaint i s = (Inr Success, s)"
    by (simp add: delete_complaint_def findOneAndDelete_def)
next
  assume a: "complaints s = pre @ c # post \<and> complaint_id c = Some i
        \<and> (\<forall>x\<in>set pre. complaint_id x \<noteq> Some i)"
  then have "removeFirst (\<lambda>c. complaint_id c = Some i) (pre @ c # post) = pre @ post"
    by (intro removeFirst_first) auto
  with a show "delete_complaint i s = (Inr Success, s\<lparr>complaints := pre @ post\<rparr>)"
    by (simp add: delete_complaint_def findOneAndDelete_def)
next
  assume a: "complaints s = pre @ c # post \<and> complaint_id c = Some i
        \<and> (\<forall>x\<in>set pre. complaint_id x \<noteq> Some i)"
  then show "stored_entries (complaints s) =
      stored_entries pre @ entries c @ stored_entries post"
    by (simp add: stored_entries_def)
next
  show "stored_entries (pre @ post) = stored_entries pre @ stored_entries post"
    by (simp add: stored_entries_def)
next
  assume a: "complaints s = pre @ c # post \<and> complaint_id c = Some i
        \<and> (\<forall>x\<in>set pre. complaint_id x \<noteq> Some i)"
    and d: "distinct (map complaint_id (complaints s))"
  from a d have "distinct (map complaint_id (pre @ c # post))" by simp
  with a show "Some i \<notin> set (map complaint_id (pre @ post))"
    by auto
next
  assume a: "complaints s = pre @ c # post \<and> complaint_id c = Some i
        \<and> (\<forall>x\<in>set pre. complaint_id x \<noteq> Some i)"
    and d: "distinct (map complaint_id (complaints s))"
  from a d have "distinct (map complaint_id (pre @ c # post))" by simp
  then show "c \<notin> set (pre @ post)"
    by auto
qed

theorem delete_complaint_removes_witness:
  "delete_complaint ''7'' \<lparr>users = [], complaints = [complaint2, complaint1]\<rparr> =
     (Inr Success, \<lparr>users = [], complaints = [complaint2, complaint1]\<rparr>)
   \<and> delete_complaint ''1'' \<lparr>users = [], complaints = [complaint2, complaint1]\<rparr> =
     (Inr Success, \<lparr>users = [], complaints = [complaint2]\<rparr>)
   \<and> stored_entries [complaint2, complaint1] = [JStr ''filed'', JStr ''hello'']
   \<and> stored_entries [complaint2] = []
   \<and> Some ''1'' \<notin> set (map complaint_id [complaint2])"
  using delete_complaint_removes [where i = "''7''"
      and s = "\<lparr>users = [], complaints = [complaint2, complaint1]\<rparr>"]
    delete_complaint_removes [where i = "''1''"
      and s = "\<lparr>users = [], complaints = [complaint2, complaint1]\<rparr>"
      and pre = "[complaint2]" and c = complaint1 and post = "[]"]
  by (simp add: complaint1_def complaint2_def empty_complaint_def stored_entries_def
      entries_def)

section \<open>Promotion, seeding and accounts\<close>

text \<open>
  C3. \<open>POST /api/users/promote-all\<close> succeeds on every store. Every user with role
  \<open>student\<close> gets the year that the chain gives: 1 to 2, 2 to 3, 3 to 4, 4 to
  Graduated, and any other year (Graduated, the empty string, no year) stays. Every
  other user, and every complaint, is as before. The bulk write has one operation for
  each student whose year changes, and the count that is returned is the number of
  these students, which is the number of users that the request changed.
\<close>

theorem promote_all_students:
  "promote_all s =
     (Inr (SuccessCount (length (filter
        (\<lambda>u. role u = Some ''student''
              \<and> year u \<in> {Some ''1'', Some ''2'', Some ''3'', Some ''4''}) (users s)))),
      s\<lparr>users := map (\<lambda>u. if role u = Some ''student''
                              then u\<lparr>year := newYear (year u)\<rparr> else u) (users s)\<rparr>)
   \<and> newYear (Some ''1'') = Some ''2'' \<and> newYear (Some ''2'') = Some ''3''
   \<and> newYear (Some ''3'') = Some ''4'' \<and> newYear (Some ''4'') = Some ''Graduated''
   \<and> (y \<notin> {Some ''1'', Some ''2'', Some ''3'', Some ''4''} \<longrightarrow> newYear y = y)
   \<and> length (bulkOps (users s)) =
       length (filter (\<lambda>u. role u = Some ''student''
              \<and> year u \<in> {Some ''1'', Some ''2'', Some ''3'', Some ''4''}) (users s))
   \<and> length (filter (\<lambda>(u, u'). u \<noteq> u')
         (zip (users s) (users (snd (promote_all s))))) =
       length (filter (\<lambda>u. role u = Some ''student''
              \<and> year u \<in> {Some ''1'', Some ''2'', Some ''3'', Some ''4''}) (users s))"
proof -
  let ?changes = "\<lambda>u. role u = Some ''student''
      \<and> year u \<in> {Some ''1'', Some ''2'', Some ''3'', Some ''4''}"
  have c: "(\<lambda>u. promoted u \<noteq> u) = ?changes"
    by (rule ext) (simp only: promoted_changes_iff newYear_changes_iff)
  have p: "promoted = (\<lambda>u. if role u = Some ''student''
      then u\<lparr>year := newYear (year u)\<rparr> else u)"
    by (rule ext) (simp add: promoted_def)
  have 1: "promote_all s =
     (Inr (SuccessCount (length (filter ?changes (users s)))),
      s\<lparr>users := map (\<lambda>u. if role u = Some ''student''
                              then u\<lparr>year := newYear (year u)\<rparr> else u) (users s)\<rparr>)"
  proof -
    have "promote_all s =
        (Inr (SuccessCount (length (filter ?changes (users s)))),
         s\<lparr>users := map promoted (users s)\<rparr>)"
      using promote_all_eq [of s] by (simp only: c)
    then show ?thesis
      by (simp only: p)
  qed
  have 2: "newYear (Some ''1'') = Some ''2''" "newYear (Some ''2'') = Some ''3''"
    "newYear (Some ''3'') = Some ''4''" "newYear (Some ''4'') = Some ''Graduated''"
    by (simp_all add: newYear_def)
  have 3: "y \<notin> {Some ''1'', Some ''2'', Some ''3'', Some ''4''} \<longrightarrow> newYear y = y"
    using newYear_changes_iff [of y] by blast
  have 4: "length (bulkOps (users s)) = length (filter ?changes (users s))"
    by (simp only: bulkOps_ops_from length_ops_from newYear_changes_iff)
  have z: "filter (\<lambda>(u, u'). u \<noteq> u') (zip us (map promoted us)) =
      map (\<lambda>u. (u, promoted u)) (filter (\<lambda>u. promoted u \<noteq> u) us)" for us
    by (induction us) auto
  have "length (filter (\<lambda>(u, u'). u \<noteq> u') (zip (users s) (users (snd (promote_all s))))) =
      length (filter (\<lambda>u. promoted u \<noteq> u) (users s))"
    by (simp add: promote_all_eq z)
  then have 5: "length (filter (\<lambda>(u, u'). u \<noteq> u')
      (zip (users s) (users (snd (promote_all s))))) = length (filter ?changes (users s))"
    by (simp only: c)
  show ?thesis
    by (intro conjI) (rule 1 2 3 4 5)+
qed

theorem promote_all_students_witness:
  "promote_all \<lparr>users = [sample_student ''a@x.com'' ''3'', sample_teacher,
       sample_student ''b@x.com'' ''4'', sample_student ''c@x.com'' ''Graduated''],
     complaints = []\<rparr> =
   (Inr (SuccessCount 2),
    \<lparr>users = [sample_student ''a@x.com'' ''4'', sample_teacher,
       sample_student ''b@x.com'' ''Graduated'', sample_student ''c@x.com'' ''Graduated''],
     complaints = []\<rparr>)
   \<and> newYear (Some ''Graduated'') = Some ''Graduated'' \<and> newYear (Some []) = Some []
   \<and> newYear None = None"
  using promote_all_students [where y = "Some ''Graduated''"
      and s = "\<lparr>users = [sample_student ''a@x.com'' ''3'', sample_teacher,
       sample_student ''b@x.com'' ''4'', sample_student ''c@x.com'' ''Graduated''],
       complaints = []\<rparr>"]
    promote_all_students [where y = "Some []" and s = empty_store]
    promote_all_students [where y = None and s = empty_store]
  by (simp add: sample_student_def sample_teacher_def empty_user_def newYear_def)

text \<open>
  C4. \<open>seedUsers\<close> never fails. On an empty user collection it inserts the three
  demo accounts, two teachers and the head of department, who alone is admin; on any
  other collection it does nothing. A second run after the first changes nothing, so
  the number of users stays.
\<close>

theorem seedUsers_once:
  "seedUsers s = Inr (if users s = [] then s\<lparr>users := map new_User demoUsers\<rparr> else s)
   \<and> length (map new_User demoUsers) = 3
   \<and> map role (map new_User demoUsers) = [Some ''teacher'', Some ''teacher'', Some ''hod'']
   \<and> map isAdmin (map new_User demoUsers) = [Some False, Some False, Some True]
   \<and> (seedUsers s = Inr s' \<longrightarrow>
        seedUsers s' = Inr s'
        \<and> length (users s') = (if users s = [] then 3 else length (users s)))"
proof -
  have 1: "seedUsers s = Inr (if users s = [] then s\<lparr>users := map new_User demoUsers\<rparr> else s)"
    by (cases "users s = []") (simp_all add: seedUsers_def countDocuments_def seed_insert)
  have 2: "length (map new_User demoUsers) = 3"
    by (simp add: demoUsers_def)
  have 3: "map role (map new_User demoUsers) = [Some ''teacher'', Some ''teacher'', Some ''hod'']"
    by (simp add: demoUsers_def new_User_def empty_user_def)
  have 4: "map isAdmin (map new_User demoUsers) = [Some False, Some False, Some True]"
    by (simp add: demoUsers_def new_User_def empty_user_def set_path_def)
  have 5: "seedUsers s' = Inr s'
      \<and> length (users s') = (if users s = [] then 3 else length (users s))"
    if "seedUsers s = Inr s'"
  proof -
    from that 1 have s': "s' = (if users s = [] then s\<lparr>users := map new_User demoUsers\<rparr> else s)"
      by simp
    then have ne: "users s' \<noteq> []"
      by (auto simp: demoUsers_def)
    then have "seedUsers s' = Inr s'"
      by (simp add: seedUsers_def countDocuments_def)
    moreover have "length (users s') = (if users s = [] then 3 else length (users s))"
      using s' by (simp add: demoUsers_def)
    ultimately show ?thesis by simp
  qed
  from 5 have 6: "seedUsers s = Inr s' \<longrightarrow>
      seedUsers s' = Inr s'
      \<and> length (users s') = (if users s = [] then 3 else length (users s))"
    by (rule impI)
  show ?thesis
    by (intro conjI) (rule 1 2 3 4 6)+
qed

theorem seedUsers_once_witness:
  "seedUsers empty_store = Inr \<lparr>users = map new_User demoUsers, complaints = []\<rparr>
   \<and> seedUsers \<lparr>users = map new_User demoUsers, complaints = []\<rparr> =
       Inr \<lparr>users = map new_User demoUsers, complaints = []\<rparr>"
  using seedUsers_once [where s = empty_store
      and s' = "\<lparr>users = map new_User demoUsers, complaints = []\<rparr>"]
  by (simp add: empty_store_def)

text \<open>
  C5 fails on the code for a \<open>pass\<close> that is not a string. On the seeded store, the
  body \<open>{ "email": "teacher1@example.com", "pass": { "$ne": null } }\<close> is answered
  with the document of Dr. Smith, whose password is \<open>pass123\<close>; so is the body whose
  \<open>pass\<close> is the array \<open>["wrong", "pass123"]\<close>. No stored password equals either
  input. The handler's 401 branch is taken for the string \<open>wrong\<close>.
\<close>

theorem login_accepts_operator:
  "login (FString ''teacher1@example.com'') (FNe None)
     \<lparr>users = map new_User demoUsers, complaints = []\<rparr> =
     (Inr (UserDoc (hd (map new_User demoUsers))),
      \<lparr>users = map new_User demoUsers, complaints = []\<rparr>)
   \<and> login (FString ''teacher1@example.com'') (FArray [''wrong'', ''pass123''])
     \<lparr>users = map new_User demoUsers, complaints = []\<rparr> =
     (Inr (UserDoc (hd (map new_User demoUsers))),
      \<lparr>users = map new_User demoUsers, complaints = []\<rparr>)
   \<and> name (hd (map new_User demoUsers)) = Some ''Dr. Smith''
   \<and> pass (hd (map new_User demoUsers)) = Some ''pass123''
   \<and> login (FString ''teacher1@example.com'') (FString ''wrong'')
     \<lparr>users = map new_User demoUsers, complaints = []\<rparr> =
     (Inl Unauthorized, \<lparr>users = map new_User demoUsers, complaints = []\<rparr>)"
  by (simp add: login_def findOne_def demoUsers_def new_User_def empty_user_def)

text \<open>
  For an email and a password that are strings, and under the unique index on
  \<open>email\<close>, the login answers with a user document exactly when that document is
  stored with the email and the password of the request, so the user it answers with is
  the only such user; it answers 401 exactly when no stored user has both. The store is
  not changed.
\<close>

theorem login_unique_user:
  assumes "distinct (map email (users s))"
  shows "(login (FString e) (FString p) s = (Inr (UserDoc u), s)
            \<longleftrightarrow> u \<in> set (users s) \<and> email u = Some e \<and> pass u = Some p)
    \<and> (login (FString e) (FString p) s = (Inl Unauthorized, s)
            \<longleftrightarrow> \<not> (\<exists>u\<in>set (users s). email u = Some e \<and> pass u = Some p))
    \<and> snd (login (FString e) (FString p) s) = s"
proof (cases "List.find (\<lambda>u. matches (FString e) (email u) \<and> matches (FString p) (pass u))
    (users s)")
  case None
  then have n: "\<not> (\<exists>u\<in>set (users s). email u = Some e \<and> pass u = Some p)"
    by (simp add: find_None_iff)
  from None have l: "login (FString e) (FString p) s = (Inl Unauthorized, s)"
    by (rule login_not_found)
  from n have "\<not> (u \<in> set (users s) \<and> email u = Some e \<and> pass u = Some p)"
    by blast
  with n show ?thesis
    unfolding l by simp
next
  case (Some v)
  from find_Some_split [OF Some]
  have v: "v \<in> set (users s)" "email v = Some e" "pass v = Some p"
    by auto
  from Some have l: "login (FString e) (FString p) s = (Inr (UserDoc v), s)"
    by (rule login_found)
  have uniq: "u = v" if "u \<in> set (users s)" "email u = Some e"
    using assms that(1) v(1) by (rule distinct_key_eq) (simp add: that(2) v(2))
  have a: "(v = u) \<longleftrightarrow> u \<in> set (users s) \<and> email u = Some e \<and> pass u = Some p"
    using uniq v by blast
  have b: "\<exists>u\<in>set (users s). email u = Some e \<and> pass u = Some p"
    using v by blast
  show ?thesis
    unfolding l using a b by simp
qed

theorem login_unique_user_witness:
  "login (FString ''t@x.com'') (FString ''pass123'')
     \<lparr>users = [sample_student ''a@x.com'' ''3'', sample_teacher], complaints = []\<rparr> =
     (Inr (UserDoc sample_teacher),
      \<lparr>users = [sample_student ''a@x.com'' ''3'', sample_teacher], complaints = []\<rparr>)
   \<and> login (FString ''t@x.com'') (FString ''wrong'')
     \<lparr>users = [sample_student ''a@x.com'' ''3'', sample_teacher], complaints = []\<rparr> =
     (Inl Unauthorized,
      \<lparr>users = [sample_student ''a@x.com'' ''3'', sample_teacher], complaints = []\<rparr>)"
proof -
  let ?s = "\<lparr>users = [sample_student ''a@x.com'' ''3'', sample_teacher], complaints = []\<rparr>"
  have d: "distinct (map email (users ?s))"
    by (simp add: sample_student_def sample_teacher_def empty_user_def)
  show ?thesis
    using login_unique_user [OF d, where e = "''t@x.com''" and p = "''pass123''"
        and u = sample_teacher]
      login_unique_user [OF d, where e = "''t@x.com''" and p = "''wrong''"]
    by (simp add: sample_student_def sample_teacher_def empty_user_def)
qed

text \<open>
  C6. \<open>POST /api/register\<close> with the email of a stored user (or with no email when a
  stored user has none) answers 400 and leaves the store as it was. Starting from a
  store where no two users share an email, such as the empty one, every sequence of
  requests ends in a store where no two users share an email: for each email, at most
  one user has it.
\<close>

theorem register_duplicate_email:
  "(email body \<in> set (map email (users s)) \<longrightarrow>
      register body s = (Inl DuplicateEmailError, s))
   \<and> (distinct (map email (users s)) \<longrightarrow>
        distinct (map email (users (snd (serve rs s))))
        \<and> length (filter (\<lambda>u. email u = e) (users (snd (serve rs s)))) \<le> 1)
   \<and> distinct (map email (users (snd (serve rs empty_store))))"
proof (intro conjI impI)
  assume "email body \<in> set (map email (users s))"
  then show "register body s = (Inl DuplicateEmailError, s)"
    by (simp add: register_def save_def new_User_def)
next
  assume "distinct (map email (users s))"
  then show "distinct (map email (users (snd (serve rs s))))"
    by (rule serve_users_distinct)
next
  assume "distinct (map email (users s))"
  then have "distinct (map email (users (snd (serve rs s))))"
    by (rule serve_users_distinct)
  then show "length (filter (\<lambda>u. email u = e) (users (snd (serve rs s)))) \<le> 1"
    by (rule length_filter_key_le1)
next
  have "distinct (map email (users empty_store))"
    by (simp add: empty_store_def)
  then show "distinct (map email (users (snd (serve rs empty_store))))"
    by (rule serve_users_distinct)
qed

theorem register_duplicate_email_witness:
  "register (empty_user\<lparr>email := Some ''t@x.com'', name := Some ''Other''\<rparr>)
     \<lparr>users = [sample_teacher], complaints = []\<rparr> =
     (Inl DuplicateEmailError, \<lparr>users = [sample_teacher], complaints = []\<rparr>)
   \<and> length (filter (\<lambda>u. email u = Some ''t@x.com'')
        (users (snd (serve
           [Register (empty_user\<lparr>email := Some ''t@x.com'', name := Some ''Other''\<rparr>)]
           \<lparr>users = [sample_teacher], complaints = []\<rparr>)))) \<le> 1"
proof -
  let ?s = "\<lparr>users = [sample_teacher], complaints = []\<rparr>"
  let ?b = "empty_user\<lparr>email := Some ''t@x.com'', name := Some ''Other''\<rparr>"
  have m: "email ?b \<in> set (map email (users ?s))"
    by (simp add: sample_teacher_def empty_user_def)
  have d: "distinct (map email (users ?s))"
    by simp
  from register_duplicate_email [where body = ?b and s = ?s and rs = "[Register ?b]"
      and e = "Some ''t@x.com''"] m d
  show ?thesis
    by blast
qed

end
